theory Spec2Isabelle
  imports Complex_Main
begin

section \<open>JavaScript values read from a request body\<close>

text \<open>
  The route handlers of \<^verbatim>\<open>registerRoutes\<close> read fields of \<^verbatim>\<open>req.body\<close>, test them
  with \<^verbatim>\<open>!x\<close> and \<^verbatim>\<open>x || d\<close>, and pass them to \<^verbatim>\<open>parseFloat\<close>. A field is one of the
  JSON primitives or absent. A JavaScript number is kept as \<open>real option\<close>: \<open>None\<close> is
  \<^verbatim>\<open>NaN\<close>, \<open>Some x\<close> a finite number taken as the exact real it denotes (the rounding
  of IEEE doubles, the infinities and negative zero are not represented).
\<close>

type_synonym jsnumber = "real option"

datatype jsvalue =
    Undefined
  | Null
  | Boolean bool
  | Number jsnumber
  | String string










text \<open>
  A text field of a request (\<^verbatim>\<open>req.body.notes\<close>) is absent or a string; it is truthy
  when it is a non-empty string.
\<close>

definition present :: "string option \<Rightarrow> bool" where
  "present t = (case t of None \<Rightarrow> False | Some s \<Rightarrow> s \<noteq> [])"

section \<open>The relational schema\<close>

text \<open>
  The rows of the tables the handlers touch, with the columns the handlers read or
  write. Identifiers are serial numbers, a timestamp is its time value in milliseconds
  (what \<^verbatim>\<open>Date.getTime()\<close> returns), a nullable column is an \<open>option\<close>. The ORM hands a
  decimal column to the handler as its decimal text; the row keeps the number that text
  denotes, so \<^verbatim>\<open>parseFloat\<close> and \<^verbatim>\<open>Number\<close> of a column read that number and
  \<^verbatim>\<open>toString()\<close> on the way back writes it.
\<close>

record client =
  client_id :: nat
  client_contractorId :: nat
  client_firstName :: string
  client_lastName :: string
  client_email :: "string option"
  client_phone :: "string option"
  client_address :: "string option"

record project =
  proj_id :: nat
  proj_contractorId :: nat
  proj_clientId :: nat
  proj_title :: string
  proj_description :: "string option"
  proj_status :: string
  proj_budget :: "real option"
  proj_startDate :: "int option"
  proj_notes :: "string option"

record estimate =
  est_id :: nat
  est_contractorId :: nat
  est_clientId :: nat
  est_projectId :: "nat option"
  est_estimateNumber :: string
  est_status :: string
  est_subtotal :: real
  est_tax :: real
  est_discount :: real
  est_total :: real
  est_terms :: "string option"
  est_notes :: "string option"
  est_contractorSignature :: "string option"
  est_agentId :: "nat option"
  est_appointmentDate :: "int option"
  est_appointmentDuration :: "int option"
  est_estimateType :: "string option"

record estimate_item =
  ei_id :: nat
  ei_estimateId :: nat
  ei_description :: string
  ei_quantity :: real
  ei_unitPrice :: real
  ei_amount :: real
  ei_notes :: "string option"

record invoice =
  inv_id :: nat
  inv_contractorId :: nat
  inv_clientId :: nat
  inv_projectId :: "nat option"
  inv_estimateId :: "nat option"
  inv_invoiceNumber :: string
  inv_issueDate :: int
  inv_dueDate :: int
  inv_status :: string
  inv_subtotal :: real
  inv_tax :: real
  inv_discount :: real
  inv_total :: real
  inv_amountPaid :: "real option"
  inv_terms :: "string option"
  inv_notes :: "string option"
  inv_contractorSignature :: "string option"

record invoice_item =
  ii_id :: nat
  ii_invoiceId :: nat
  ii_description :: string
  ii_quantity :: real
  ii_unitPrice :: real
  ii_amount :: real
  ii_notes :: "string option"

record agent =
  agent_id :: nat
  agent_contractorId :: nat
  agent_firstName :: string
  agent_lastName :: string

record event =
  ev_id :: nat
  ev_contractorId :: nat
  ev_clientId :: nat
  ev_title :: string
  ev_description :: string
  ev_startTime :: int
  ev_endTime :: int
  ev_type :: string
  ev_status :: string
  ev_location :: string

record database =
  clients :: "client list"
  projects :: "project list"
  estimates :: "estimate list"
  estimateItems :: "estimate_item list"
  invoices :: "invoice list"
  invoiceItems :: "invoice_item list"
  agents :: "agent list"
  events :: "event list"

section \<open>Table operations\<close>

text \<open>
  A query by identifier and owner (\<^verbatim>\<open>and(eq(t.id, id), eq(t.contractorId, c))\<close>)
  returns the first row that matches; an update under the same condition rewrites every
  row that matches and leaves the others as they are. A serial column hands out a
  number above every one in use.
\<close>

definition findFirst :: "('r \<Rightarrow> nat) \<Rightarrow> ('r \<Rightarrow> nat) \<Rightarrow> 'r list \<Rightarrow> nat \<Rightarrow> nat \<Rightarrow> 'r option" where
  "findFirst key owner rows i c = find (\<lambda>r. key r = i \<and> owner r = c) rows"

definition updateWhere :: "('r \<Rightarrow> nat) \<Rightarrow> ('r \<Rightarrow> nat) \<Rightarrow> 'r list \<Rightarrow> nat \<Rightarrow> nat \<Rightarrow> ('r \<Rightarrow> 'r) \<Rightarrow> 'r list" where
  "updateWhere key owner rows i c f = map (\<lambda>r. if key r = i \<and> owner r = c then f r else r) rows"

definition nextId :: "nat list \<Rightarrow> nat" where
  "nextId ids = Suc (foldr max ids 0)"

section \<open>The storage layer\<close>

text \<open>
  The handlers reach the tables through the \<^verbatim>\<open>storage\<close> object, whose module is not
  among the sources. Every call carries the identifier of the requesting contractor
  (\<^verbatim>\<open>req.user!.id\<close>), the ownership check of the specification. An insert is given
  the row without its identifier, written here as a row whose identifier the table
  replaces. An update is given the columns to set, written here as a function on rows.
\<close>

text \<open>Modelled from the spec: \<^verbatim>\<open>storage.getClient(id, contractorId)\<close>, the client of
  that identifier owned by that contractor.\<close>

definition getClient :: "database \<Rightarrow> nat \<Rightarrow> nat \<Rightarrow> client option" where
  "getClient db i c = findFirst client_id client_contractorId (clients db) i c"

text \<open>Modelled from the spec: \<^verbatim>\<open>storage.createClient(data)\<close>, which inserts the row
  and returns it with its new identifier.\<close>

definition createClient :: "database \<Rightarrow> client \<Rightarrow> database \<times> client" where
  "createClient db d =
     (let row = d\<lparr>client_id := nextId (map client_id (clients db))\<rparr>
      in (db\<lparr>clients := clients db @ [row]\<rparr>, row))"

text \<open>Modelled from the spec: \<^verbatim>\<open>storage.getProject(id, contractorId)\<close>.\<close>

definition getProject :: "database \<Rightarrow> nat \<Rightarrow> nat \<Rightarrow> project option" where
  "getProject db i c = findFirst proj_id proj_contractorId (projects db) i c"



text \<open>Modelled from the spec: \<^verbatim>\<open>storage.getEstimate(id, contractorId)\<close>.\<close>

definition getEstimate :: "database \<Rightarrow> nat \<Rightarrow> nat \<Rightarrow> estimate option" where
  "getEstimate db i c = findFirst est_id est_contractorId (estimates db) i c"

text \<open>Modelled from the spec: \<^verbatim>\<open>storage.updateEstimate(id, contractorId, data)\<close>.\<close>

definition updateEstimate :: "database \<Rightarrow> nat \<Rightarrow> nat \<Rightarrow> (estimate \<Rightarrow> estimate) \<Rightarrow> database \<times> estimate option" where
  "updateEstimate db i c f =
     (let db' = db\<lparr>estimates := updateWhere est_id est_contractorId (estimates db) i c f\<rparr>
      in (db', map_option f (getEstimate db i c)))"


text \<open>Modelled from the spec: \<^verbatim>\<open>storage.getInvoice(id, contractorId)\<close>.\<close>

definition getInvoice :: "database \<Rightarrow> nat \<Rightarrow> nat \<Rightarrow> invoice option" where
  "getInvoice db i c = findFirst inv_id inv_contractorId (invoices db) i c"

text \<open>Modelled from the spec: \<^verbatim>\<open>storage.updateInvoice(id, contractorId, data)\<close>.\<close>

definition updateInvoice :: "database \<Rightarrow> nat \<Rightarrow> nat \<Rightarrow> (invoice \<Rightarrow> invoice) \<Rightarrow> database \<times> invoice option" where
  "updateInvoice db i c f =
     (let db' = db\<lparr>invoices := updateWhere inv_id inv_contractorId (invoices db) i c f\<rparr>
      in (db', map_option f (getInvoice db i c)))"



section \<open>Responses\<close>

text \<open>
  A handler ends with \<^verbatim>\<open>res.status(n).json(body)\<close> (status 200 when none is set). Of
  the body of a recorded payment the report keeps the invoice, the amount, the totals
  and the project update; the echoed method and notes, the date, the rounded
  percentage and the message text are left out.
\<close>

datatype zod_issue = ZodIssue (issue_path: "string list") (issue_message: string)

record payment_report =
  pr_invoice :: "invoice option"
  pr_amount :: real
  pr_currentAmountPaid :: real
  pr_totalAmount :: real
  pr_remainingBalance :: real
  pr_projectUpdated :: bool
  pr_newProjectStatus :: "string option"

datatype json =
    Message string
  | Errors "zod_issue list"
  | ClientJson client
  | ProjectJson "project option"
  | EstimateJson "estimate option"
  | InvoiceJson "invoice option"
  | BalanceExceeded real real real
  | PaymentJson payment_report
  | ConflictJson "estimate list"

record response =
  status :: nat
  body :: json

definition reply :: "nat \<Rightarrow> json \<Rightarrow> response" where
  "reply n j = \<lparr>status = n, body = j\<rparr>"

section \<open>Route handlers\<close>

text \<open>
  Each definition is the body of one \<^verbatim>\<open>app.METHOD(path, ..., async (req, res) => ...)\<close>
  of \<^verbatim>\<open>registerRoutes\<close>: it takes the tables, the authenticated contractor
  (\<^verbatim>\<open>req.user!.id\<close>), the route parameter and the fields of the body it reads, and
  returns the tables and the response. The clock (\<^verbatim>\<open>new Date()\<close>) is an argument, read
  once per request. Except where a handler is given a failure flag, the runs covered
  are those in which every database call returns.
\<close>

subsection \<open>Notes written by the status changes\<close>

text \<open>\<^verbatim>\<open>${existing.notes ? existing.notes + '\n\n' : ''}\<close>\<close>

definition notesPrefix :: "string option \<Rightarrow> string" where
  "notesPrefix n =
     (case n of
        None \<Rightarrow> []
      | Some s \<Rightarrow> if s = [] then [] else s @ [CHR 0x0A, CHR 0x0A])"

text \<open>\<^verbatim>\<open>req.body.notes ? `${label}${req.body.notes}` : fallback\<close>\<close>

definition noteLine :: "string option \<Rightarrow> string \<Rightarrow> string \<Rightarrow> string" where
  "noteLine notes label fallback =
     (case notes of
        None \<Rightarrow> fallback
      | Some n \<Rightarrow> if n = [] then fallback else label @ n)"

subsection \<open>POST /api/protected/invoices/:id/payment\<close>




subsection \<open>POST /api/protected/projects/:id/cancel\<close>


subsection \<open>POST /api/protected/estimates/:id/accept and /reject\<close>

definition acceptEstimate ::
  "database \<Rightarrow> nat \<Rightarrow> nat \<Rightarrow> string option \<Rightarrow> database \<times> response" where
  "acceptEstimate db contractorId estimateId notes =
     (case getEstimate db estimateId contractorId of
        None \<Rightarrow> (db, reply 404 (Message ''Estimate not found''))
      | Some existingEstimate \<Rightarrow>
          if est_status existingEstimate \<noteq> ''draft'' \<and> est_status existingEstimate \<noteq> ''sent''
          then (db, reply 400 (Message (''Estimate cannot be accepted from current status: ''
                                          @ est_status existingEstimate)))
          else
            (let (db1, updatedEstimate) = updateEstimate db estimateId contractorId
                   (\<lambda>e. e\<lparr>est_status := ''accepted'',
                           est_notes := Some (notesPrefix (est_notes existingEstimate)
                             @ noteLine notes ''Accepted: '' ''Estimate accepted'')\<rparr>)
             in (db1, reply 200 (EstimateJson updatedEstimate))))"

definition rejectEstimate ::
  "database \<Rightarrow> nat \<Rightarrow> nat \<Rightarrow> string option \<Rightarrow> database \<times> response" where
  "rejectEstimate db contractorId estimateId notes =
     (case getEstimate db estimateId contractorId of
        None \<Rightarrow> (db, reply 404 (Message ''Estimate not found''))
      | Some existingEstimate \<Rightarrow>
          if est_status existingEstimate \<noteq> ''draft'' \<and> est_status existingEstimate \<noteq> ''sent''
          then (db, reply 400 (Message (''Estimate cannot be rejected from current status: ''
                                          @ est_status existingEstimate)))
          else if \<not> present notes
          then (db, reply 400 (Message ''Rejection reason is required''))
          else
            (let (db1, updatedEstimate) = updateEstimate db estimateId contractorId
                   (\<lambda>e. e\<lparr>est_status := ''rejected'',
                           est_notes := Some (notesPrefix (est_notes existingEstimate)
                             @ ''Rejected: '' @ (case notes of None \<Rightarrow> [] | Some n \<Rightarrow> n))\<rparr>)
             in (db1, reply 200 (EstimateJson updatedEstimate))))"

subsection \<open>POST /api/protected/estimates/:id/convert-to-invoice\<close>




subsection \<open>POST /api/protected/agents/assign-estimate\<close>

text \<open>\<^verbatim>\<open>(duration || 60)\<close>: an absent duration and the number 0 give 60 minutes.\<close>

definition durationOr60 :: "int option \<Rightarrow> int" where
  "durationOr60 d = (case d of None \<Rightarrow> 60 | Some n \<Rightarrow> if n = 0 then 60 else n)"

text \<open>
  The test inside \<^verbatim>\<open>conflictingEstimates.some(existing => ...)\<close>, for a requested
  slot from \<open>appointmentDateTime\<close> to \<open>appointmentEndTime\<close>.
\<close>

definition overlapsSlot :: "int \<Rightarrow> int \<Rightarrow> estimate \<Rightarrow> bool" where
  "overlapsSlot appointmentDateTime appointmentEndTime existing =
     (case est_appointmentDate existing of
        None \<Rightarrow> False
      | Some existingStart \<Rightarrow>
          (let existingEnd = existingStart + durationOr60 (est_appointmentDuration existing) * 60000
           in appointmentDateTime < existingEnd \<and> appointmentEndTime > existingStart))"

text \<open>
  This handler queries the tables through the ORM itself. The request carries the
  appointment date as a valid date, kept as its time value, and the duration in
  minutes. The flag \<open>insertFails\<close> says whether \<^verbatim>\<open>db.insert(events)\<close> throws.
\<close>

definition assignEstimate ::
  "database \<Rightarrow> nat \<Rightarrow> nat \<Rightarrow> nat \<Rightarrow> int \<Rightarrow> int option \<Rightarrow> bool \<Rightarrow> database \<times> response" where
  "assignEstimate db contractorId estimateId agentId appointmentDate appointmentDuration insertFails =
     (case findFirst est_id est_contractorId (estimates db) estimateId contractorId of
        None \<Rightarrow> (db, reply 404 (Message ''Estimate not found''))
      | Some estimate \<Rightarrow>
          (case findFirst agent_id agent_contractorId (agents db) agentId contractorId of
             None \<Rightarrow> (db, reply 404 (Message ''Agent not found''))
           | Some agent \<Rightarrow>
               (let appointmentDateTime = appointmentDate;
                    appointmentEndTime = appointmentDateTime + durationOr60 appointmentDuration * 60000;
                    conflictingEstimates = filter
                      (\<lambda>e. est_agentId e = Some agentId \<and> est_contractorId e = contractorId
                            \<and> est_id e \<noteq> estimateId \<and> est_appointmentDate e \<noteq> None)
                      (estimates db);
                    hasTimeConflict =
                      list_ex (overlapsSlot appointmentDateTime appointmentEndTime) conflictingEstimates
                in if hasTimeConflict
                   then (db, reply 409 (ConflictJson
                           (filter (overlapsSlot appointmentDateTime appointmentEndTime)
                              conflictingEstimates)))
                   else
                     (let db1 = db\<lparr>estimates := map
                            (\<lambda>e. if est_id e = estimateId
                                  then e\<lparr>est_agentId := Some agentId,
                                         est_appointmentDate := Some appointmentDateTime,
                                         est_appointmentDuration := Some (durationOr60 appointmentDuration),
                                         est_estimateType := Some ''agent''\<rparr>
                                  else e)
                            (estimates db)\<rparr>;
                          updatedEstimate = find (\<lambda>e. est_id e = estimateId) (estimates db1);
                          db2 = (if insertFails then db1
                                 else db1\<lparr>events := events db1 @
                                   [\<lparr>ev_id = nextId (map ev_id (events db1)),
                                     ev_contractorId = contractorId,
                                     ev_clientId = est_clientId estimate,
                                     ev_title = ''Agent Estimate - '' @ est_estimateNumber estimate,
                                     ev_description = ''Estimate appointment assigned to ''
                                       @ agent_firstName agent @ '' '' @ agent_lastName agent,
                                     ev_startTime = appointmentDateTime,
                                     ev_endTime = appointmentEndTime,
                                     ev_type = ''estimate'',
                                     ev_status = ''confirmed'',
                                     ev_location = []\<rparr>]\<rparr>)
                      in (db2, reply 200 (EstimateJson updatedEstimate))))))"

subsection \<open>GET /api/protected/clients/:id and POST /api/protected/clients\<close>

text \<open>
  The flag \<open>storageFails\<close> says whether the storage call throws; the handler's
  \<^verbatim>\<open>catch\<close> then answers 500.
\<close>

definition getClientById :: "bool \<Rightarrow> database \<Rightarrow> nat \<Rightarrow> nat \<Rightarrow> database \<times> response" where
  "getClientById storageFails db contractorId clientId =
     (if storageFails then (db, reply 500 (Message ''Failed to fetch client''))
      else
        (case getClient db clientId contractorId of
           None \<Rightarrow> (db, reply 404 (Message ''Client not found''))
         | Some client \<Rightarrow> (db, reply 200 (ClientJson client))))"

text \<open>
  \<^verbatim>\<open>clientInsertSchema\<close> is declared in the shared schema module, which is not among
  the sources: \<open>parse\<close> stands for \<^verbatim>\<open>clientInsertSchema.parse\<close> applied to the body
  with \<^verbatim>\<open>contractorId\<close> set, and returns the issues of the \<^verbatim>\<open>ZodError\<close> it throws or
  the validated data.
\<close>

definition postClient ::
  "('b \<Rightarrow> nat \<Rightarrow> zod_issue list + client) \<Rightarrow> bool \<Rightarrow> database \<Rightarrow> nat \<Rightarrow> 'b \<Rightarrow> database \<times> response" where
  "postClient parse storageFails db contractorId reqBody =
     (case parse reqBody contractorId of
        Inl errors \<Rightarrow> (db, reply 400 (Errors errors))
      | Inr validatedData \<Rightarrow>
          if storageFails then (db, reply 500 (Message ''Failed to create client''))
          else
            (let (db1, client) = createClient db validatedData
             in (db1, reply 201 (ClientJson client))))"

section \<open>The ownership middleware\<close>







section \<open>Example data\<close>

text \<open>Rows and tables at which the theorems below are instantiated.\<close>

definition db_empty :: database where
  "db_empty = \<lparr>clients = [], projects = [], estimates = [], estimateItems = [],
     invoices = [], invoiceItems = [], agents = [], events = []\<rparr>"





definition estimate_ex :: "string \<Rightarrow> estimate" where
  "estimate_ex st =
     \<lparr>est_id = 3, est_contractorId = 1, est_clientId = 1, est_projectId = None,
      est_estimateNumber = ''EST-3'', est_status = st, est_subtotal = 90, est_tax = 10,
      est_discount = 0, est_total = 100, est_terms = Some ''Net 15'', est_notes = None,
      est_contractorSignature = None, est_agentId = None, est_appointmentDate = None,
      est_appointmentDuration = None, est_estimateType = None\<rparr>"


definition agent_ex :: agent where
  "agent_ex = \<lparr>agent_id = 5, agent_contractorId = 1, agent_firstName = ''Sam'',
     agent_lastName = ''Lee''\<rparr>"

definition estimate_appt :: "nat \<Rightarrow> int \<Rightarrow> int option \<Rightarrow> estimate" where
  "estimate_appt i start dur =
     (estimate_ex ''sent'')\<lparr>est_id := i, est_agentId := Some 5,
        est_appointmentDate := Some start, est_appointmentDuration := dur\<rparr>"

definition db_schedule :: database where
  "db_schedule = db_empty\<lparr>estimates := [estimate_ex ''sent'', estimate_appt 4 36000000 None],
     agents := [agent_ex]\<rparr>"

text \<open>
  A stand-in for \<^verbatim>\<open>clientInsertSchema.parse\<close>: the body is the first name, if any, and
  a missing or empty first name is rejected.
\<close>

definition parse_ex :: "string option \<Rightarrow> nat \<Rightarrow> zod_issue list + client" where
  "parse_ex reqBody contractorId =
     (case reqBody of
        None \<Rightarrow> Inl [ZodIssue [''firstName''] ''Required'']
      | Some n \<Rightarrow>
          if n = [] then Inl [ZodIssue [''firstName''] ''String must contain at least 1 character(s)'']
          else Inr \<lparr>client_id = 0, client_contractorId = contractorId, client_firstName = n,
                    client_lastName = ''Doe'', client_email = None, client_phone = None,
                    client_address = None\<rparr>)"



section \<open>Facts about the table operations\<close>

lemma findFirst_updateWhere:
  assumes "\<And>r. key (f r) = key r" "\<And>r. owner (f r) = owner r"
  shows "findFirst key owner (updateWhere key owner rows i c f) i' c' =
         (if i' = i \<and> c' = c then map_option f (findFirst key owner rows i c)
          else findFirst key owner rows i' c')"
  using assms by (induction rows) (auto simp: findFirst_def updateWhere_def)


lemma getInvoice_projects_update [simp]:
  "getInvoice (db\<lparr>projects := ps\<rparr>) i c = getInvoice db i c"
  by (simp add: getInvoice_def)


lemma projects_updateInvoice [simp]: "projects (fst (updateInvoice db i c f)) = projects db"
  by (simp add: updateInvoice_def Let_def)

lemma getProject_updateInvoice [simp]:
  "getProject (fst (updateInvoice db i c f)) j d = getProject db j d"
  by (simp add: getProject_def)

lemma getClient_updateInvoice [simp]:
  "getClient (fst (updateInvoice db i c f)) j d = getClient db j d"
  by (simp add: getClient_def updateInvoice_def Let_def)


lemma getEstimate_updateEstimate:
  assumes "\<And>r. est_id (f r) = est_id r" "\<And>r. est_contractorId (f r) = est_contractorId r"
  shows "getEstimate (fst (updateEstimate db i c f)) i' c' =
         (if i' = i \<and> c' = c then map_option f (getEstimate db i c) else getEstimate db i' c')"
  using assms by (simp add: getEstimate_def updateEstimate_def Let_def findFirst_updateWhere)


lemma getEstimate_invoices_update [simp]:
  "getEstimate (db\<lparr>invoices := xs\<rparr>) i c = getEstimate db i c"
  by (simp add: getEstimate_def)

lemma getEstimate_invoiceItems_update [simp]:
  "getEstimate (db\<lparr>invoiceItems := xs\<rparr>) i c = getEstimate db i c"
  by (simp add: getEstimate_def)

lemma findFirst_map_by_key:
  assumes "findFirst key owner rows i c = Some r"
    and "\<And>x. key (f x) = key x" and "\<And>x. owner (f x) = owner x"
  shows "findFirst key owner (map (\<lambda>x. if key x = i then f x else x) rows) i c = Some (f r)"
  using assms by (induction rows) (auto simp: findFirst_def split: if_splits)




section \<open>Recording a payment\<close>











section \<open>Cancelling a project\<close>



section \<open>Accepting and rejecting an estimate\<close>

text \<open>
  C9. For an estimate of the contractor whose status is neither "draft" nor "sent",
  the accept and the reject handler answer 400 and change nothing; the reject handler
  also answers 400 and changes nothing when the request has no non-empty notes. So
  an estimate that is "accepted" after the accept handler was "accepted", "draft" or
  "sent" before it, and one that is "rejected" after the reject handler was
  "rejected", "draft" or "sent" before it.
\<close>

theorem accept_reject_only_from_draft_or_sent:
  "(\<forall>e. getEstimate db estimateId c = Some e \<and> est_status e \<noteq> ''draft'' \<and> est_status e \<noteq> ''sent''
       \<longrightarrow> status (snd (acceptEstimate db c estimateId notes)) = 400
         \<and> fst (acceptEstimate db c estimateId notes) = db
         \<and> status (snd (rejectEstimate db c estimateId notes)) = 400
         \<and> fst (rejectEstimate db c estimateId notes) = db)
   \<and> (\<forall>e. getEstimate db estimateId c = Some e \<and> \<not> present notes
       \<longrightarrow> status (snd (rejectEstimate db c estimateId notes)) = 400
         \<and> fst (rejectEstimate db c estimateId notes) = db)
   \<and> (\<forall>j d e'. getEstimate (fst (acceptEstimate db c estimateId notes)) j d = Some e'
         \<and> est_status e' = ''accepted''
       \<longrightarrow> (\<exists>e. getEstimate db j d = Some e
              \<and> (est_status e = ''accepted'' \<or> est_status e = ''draft'' \<or> est_status e = ''sent'')))
   \<and> (\<forall>j d e'. getEstimate (fst (rejectEstimate db c estimateId notes)) j d = Some e'
         \<and> est_status e' = ''rejected''
       \<longrightarrow> (\<exists>e. getEstimate db j d = Some e
              \<and> (est_status e = ''rejected'' \<or> est_status e = ''draft'' \<or> est_status e = ''sent'')))"
proof (intro conjI allI impI)
  fix e assume "getEstimate db estimateId c = Some e \<and> est_status e \<noteq> ''draft'' \<and> est_status e \<noteq> ''sent''"
  then show "status (snd (acceptEstimate db c estimateId notes)) = 400"
    "fst (acceptEstimate db c estimateId notes) = db"
    "status (snd (rejectEstimate db c estimateId notes)) = 400"
    "fst (rejectEstimate db c estimateId notes) = db"
    by (simp_all add: acceptEstimate_def rejectEstimate_def reply_def)
next
  fix e assume "getEstimate db estimateId c = Some e \<and> \<not> present notes"
  then show "status (snd (rejectEstimate db c estimateId notes)) = 400"
    "fst (rejectEstimate db c estimateId notes) = db"
    by (simp_all add: rejectEstimate_def reply_def)
next
  fix j d e'
  assume "getEstimate (fst (acceptEstimate db c estimateId notes)) j d = Some e' \<and> est_status e' = ''accepted''"
  then show "\<exists>e. getEstimate db j d = Some e
              \<and> (est_status e = ''accepted'' \<or> est_status e = ''draft'' \<or> est_status e = ''sent'')"
    by (auto simp: acceptEstimate_def getEstimate_updateEstimate case_prod_beta
          split: option.splits if_splits)
next
  fix j d e'
  assume "getEstimate (fst (rejectEstimate db c estimateId notes)) j d = Some e' \<and> est_status e' = ''rejected''"
  then show "\<exists>e. getEstimate db j d = Some e
              \<and> (est_status e = ''rejected'' \<or> est_status e = ''draft'' \<or> est_status e = ''sent'')"
    by (auto simp: rejectEstimate_def getEstimate_updateEstimate case_prod_beta
          split: option.splits if_splits)
qed

text \<open>
  The theorem at the converted estimate 3: neither handler changes it. At the same
  estimate in status "sent", a rejection with empty notes is refused.
\<close>

theorem accept_reject_only_from_draft_or_sent_witness:
  "getEstimate (db_empty\<lparr>estimates := [estimate_ex ''converted'']\<rparr>) 3 1 = Some (estimate_ex ''converted'')
   \<and> est_status (estimate_ex ''converted'') = ''converted''
   \<and> status (snd (acceptEstimate (db_empty\<lparr>estimates := [estimate_ex ''converted'']\<rparr>) 1 3 None)) = 400
   \<and> fst (acceptEstimate (db_empty\<lparr>estimates := [estimate_ex ''converted'']\<rparr>) 1 3 None)
       = db_empty\<lparr>estimates := [estimate_ex ''converted'']\<rparr>
   \<and> status (snd (rejectEstimate (db_empty\<lparr>estimates := [estimate_ex ''converted'']\<rparr>) 1 3 (Some ''late''))) = 400
   \<and> fst (rejectEstimate (db_empty\<lparr>estimates := [estimate_ex ''converted'']\<rparr>) 1 3 (Some ''late''))
       = db_empty\<lparr>estimates := [estimate_ex ''converted'']\<rparr>
   \<and> getEstimate (db_empty\<lparr>estimates := [estimate_ex ''sent'']\<rparr>) 3 1 = Some (estimate_ex ''sent'')
   \<and> status (snd (rejectEstimate (db_empty\<lparr>estimates := [estimate_ex ''sent'']\<rparr>) 1 3 (Some []))) = 400
   \<and> fst (rejectEstimate (db_empty\<lparr>estimates := [estimate_ex ''sent'']\<rparr>) 1 3 (Some []))
       = db_empty\<lparr>estimates := [estimate_ex ''sent'']\<rparr>"
proof -
  let ?db = "db_empty\<lparr>estimates := [estimate_ex ''converted'']\<rparr>"
  let ?ds = "db_empty\<lparr>estimates := [estimate_ex ''sent'']\<rparr>"
  have g: "getEstimate ?db 3 1 = Some (estimate_ex ''converted'')"
    by (simp add: getEstimate_def findFirst_def db_empty_def estimate_ex_def)
  have gs: "getEstimate ?ds 3 1 = Some (estimate_ex ''sent'')"
    by (simp add: getEstimate_def findFirst_def db_empty_def estimate_ex_def)
  have s: "est_status (estimate_ex ''converted'') = ''converted''" by (simp add: estimate_ex_def)
  have n: "\<not> present (Some [])" by (simp add: present_def)
  have a: "status (snd (acceptEstimate ?db 1 3 None)) = 400 \<and> fst (acceptEstimate ?db 1 3 None) = ?db"
    using accept_reject_only_from_draft_or_sent[of ?db 3 1 None] g s by simp
  have r: "status (snd (rejectEstimate ?db 1 3 (Some ''late''))) = 400
           \<and> fst (rejectEstimate ?db 1 3 (Some ''late'')) = ?db"
    using accept_reject_only_from_draft_or_sent[of ?db 3 1 "Some ''late''"] g s by simp
  have e: "status (snd (rejectEstimate ?ds 1 3 (Some []))) = 400
           \<and> fst (rejectEstimate ?ds 1 3 (Some [])) = ?ds"
    using accept_reject_only_from_draft_or_sent[of ?ds 3 1 "Some []"] gs n by simp
  from g s a r gs e show ?thesis by blast
qed

section \<open>Converting an estimate to an invoice\<close>



section \<open>Assigning an estimate to an agent\<close>



text \<open>
  C10. When the assignment succeeds (status 200), whether or not the insertion of the
  calendar event throws, the response is the same, namely 200 with the first updated
  estimate row, and the estimates are the same, with the assignment written on the
  contractor's estimate. When the insertion does not throw, one event is added, with
  status "confirmed", from the appointment's start to its end; when it throws, no
  event is added.
\<close>

theorem assign_survives_event_failure:
  assumes "status (snd (assignEstimate db c estimateId agentId start dur insertFails)) = 200"
  shows "snd (assignEstimate db c estimateId agentId start dur True)
           = snd (assignEstimate db c estimateId agentId start dur False)
       \<and> estimates (fst (assignEstimate db c estimateId agentId start dur True))
           = estimates (fst (assignEstimate db c estimateId agentId start dur False))
       \<and> events (fst (assignEstimate db c estimateId agentId start dur True)) = events db
       \<and> (\<exists>ev. events (fst (assignEstimate db c estimateId agentId start dur False))
                  = events db @ [ev]
              \<and> ev_contractorId ev = c
              \<and> ev_status ev = ''confirmed''
              \<and> ev_startTime ev = start
              \<and> ev_endTime ev = start + durationOr60 dur * 60000)
       \<and> status (snd (assignEstimate db c estimateId agentId start dur True)) = 200
       \<and> body (snd (assignEstimate db c estimateId agentId start dur True))
           = EstimateJson (find (\<lambda>x. est_id x = estimateId)
               (estimates (fst (assignEstimate db c estimateId agentId start dur True))))
       \<and> (\<exists>e. findFirst est_id est_contractorId (estimates db) estimateId c = Some e
              \<and> findFirst est_id est_contractorId
                   (estimates (fst (assignEstimate db c estimateId agentId start dur True)))
                   estimateId c
                 = Some (e\<lparr>est_agentId := Some agentId,
                           est_appointmentDate := Some start,
                           est_appointmentDuration := Some (durationOr60 dur),
                           est_estimateType := Some ''agent''\<rparr>))"
proof -
  let ?conf = "filter (\<lambda>x. est_agentId x = Some agentId \<and> est_contractorId x = c
                            \<and> est_id x \<noteq> estimateId \<and> est_appointmentDate x \<noteq> None) (estimates db)"
  let ?hit = "list_ex (overlapsSlot start (start + durationOr60 dur * 60000)) ?conf"
  let ?f = "\<lambda>x::estimate. x\<lparr>est_agentId := Some agentId,
                                    est_appointmentDate := Some start,
                                    est_appointmentDuration := Some (durationOr60 dur),
                                    est_estimateType := Some ''agent''\<rparr>"
  from assms obtain e ag where
    e: "findFirst est_id est_contractorId (estimates db) estimateId c = Some e"
    and ag: "findFirst agent_id agent_contractorId (agents db) agentId c = Some ag"
    and nh: "\<not> ?hit"
    by (auto simp: assignEstimate_def Let_def reply_def split: option.splits if_splits)
  have found: "findFirst est_id est_contractorId
        (map (\<lambda>x. if est_id x = estimateId then ?f x else x) (estimates db)) estimateId c
        = Some (?f e)"
    by (rule findFirst_map_by_key[OF e]) simp_all
  show ?thesis
    using e ag nh found
    by (simp add: assignEstimate_def Let_def reply_def)
qed

text \<open>
  The theorem at the assignment of estimate 3 to agent 5 at 11:00 with the event
  insertion failing.
\<close>

theorem assign_survives_event_failure_witness:
  "status (snd (assignEstimate db_schedule 1 3 5 39600000 None True)) = 200
   \<and> snd (assignEstimate db_schedule 1 3 5 39600000 None True)
       = snd (assignEstimate db_schedule 1 3 5 39600000 None False)
   \<and> estimates (fst (assignEstimate db_schedule 1 3 5 39600000 None True))
       = estimates (fst (assignEstimate db_schedule 1 3 5 39600000 None False))
   \<and> events (fst (assignEstimate db_schedule 1 3 5 39600000 None True)) = []
   \<and> (\<exists>ev. events (fst (assignEstimate db_schedule 1 3 5 39600000 None False)) = [ev]
          \<and> ev_status ev = ''confirmed''
          \<and> ev_startTime ev = 39600000
          \<and> ev_endTime ev = 43200000)"
proof -
  have h: "status (snd (assignEstimate db_schedule 1 3 5 39600000 None True)) = 200"
    by (simp add: assignEstimate_def Let_def reply_def findFirst_def db_schedule_def db_empty_def
          estimate_ex_def estimate_appt_def agent_ex_def overlapsSlot_def durationOr60_def)
  note t = assign_survives_event_failure[OF h]
  have ev0: "events db_schedule = []" by (simp add: db_schedule_def db_empty_def)
  have a: "snd (assignEstimate db_schedule 1 3 5 39600000 None True)
       = snd (assignEstimate db_schedule 1 3 5 39600000 None False)"
    by (rule t[THEN conjunct1])
  have b: "estimates (fst (assignEstimate db_schedule 1 3 5 39600000 None True))
       = estimates (fst (assignEstimate db_schedule 1 3 5 39600000 None False))"
    by (rule t[THEN conjunct2, THEN conjunct1])
  have c: "events (fst (assignEstimate db_schedule 1 3 5 39600000 None True)) = []"
    using t[THEN conjunct2, THEN conjunct2, THEN conjunct1] ev0 by simp
  have d: "\<exists>ev. events (fst (assignEstimate db_schedule 1 3 5 39600000 None False)) = [ev]
          \<and> ev_status ev = ''confirmed''
          \<and> ev_startTime ev = 39600000
          \<and> ev_endTime ev = 43200000"
    using t[THEN conjunct2, THEN conjunct2, THEN conjunct2, THEN conjunct1] ev0
    by (auto simp: durationOr60_def)
  from h a b c d show ?thesis by blast
qed

section \<open>Error statuses of the client routes\<close>

text \<open>
  C7. Creating a client with a body that the insert schema rejects answers 400 with
  the issues of the validation error and creates no client; a body the schema accepts
  creates the client and answers 201, unless the storage call throws, which answers
  500 and creates nothing. Fetching a client the contractor does not have answers 404,
  and a fetch whose storage call throws answers 500.
\<close>

theorem client_route_error_statuses:
  "(\<forall>errors. parse reqBody c = Inl errors
       \<longrightarrow> postClient parse storageFails db c reqBody = (db, reply 400 (Errors errors)))
   \<and> (\<forall>d. parse reqBody c = Inr d
       \<longrightarrow> postClient parse True db c reqBody = (db, reply 500 (Message ''Failed to create client''))
         \<and> status (snd (postClient parse False db c reqBody)) = 201
         \<and> clients (fst (postClient parse False db c reqBody))
             = clients db @ [d\<lparr>client_id := nextId (map client_id (clients db))\<rparr>])
   \<and> (getClient db clientId c = None
       \<longrightarrow> getClientById False db c clientId = (db, reply 404 (Message ''Client not found'')))
   \<and> getClientById True db c clientId = (db, reply 500 (Message ''Failed to fetch client''))"
  by (auto simp: postClient_def getClientById_def createClient_def Let_def reply_def)

text \<open>
  The theorem at a request without a first name, refused with the issue of the
  schema, and at the fetch of a client that does not exist.
\<close>

theorem client_route_error_statuses_witness:
  "parse_ex None 1 = Inl [ZodIssue [''firstName''] ''Required'']
   \<and> postClient parse_ex False db_empty 1 None
       = (db_empty, reply 400 (Errors [ZodIssue [''firstName''] ''Required'']))
   \<and> getClient db_empty 9 1 = None
   \<and> getClientById False db_empty 1 9 = (db_empty, reply 404 (Message ''Client not found''))"
proof -
  have p: "parse_ex None 1 = Inl [ZodIssue [''firstName''] ''Required'']"
    by (simp add: parse_ex_def)
  have g: "getClient db_empty 9 1 = None"
    by (simp add: getClient_def findFirst_def db_empty_def)
  note t = client_route_error_statuses[of parse_ex None 1 False db_empty 9]
  have a: "postClient parse_ex False db_empty 1 None
       = (db_empty, reply 400 (Errors [ZodIssue [''firstName''] ''Required'']))"
    using t[THEN conjunct1] p by blast
  have b: "getClientById False db_empty 1 9 = (db_empty, reply 404 (Message ''Client not found''))"
    using t[THEN conjunct2, THEN conjunct2, THEN conjunct1] g by blast
  from p a g b show ?thesis by blast
qed

section \<open>Resources of other contractors\<close>



end
